theory Spec2Isabelle
  imports Main "HOL-Library.Multiset" "HOL-Library.Sublist"
begin

section \<open>Values of the JavaScript runtime\<close>

text \<open>
  The handlers of \<^verbatim>\<open>src/server.ts\<close> receive the request body that \<^verbatim>\<open>express.json()\<close>
  parsed and hand JavaScript values on to the ORM client. A value is one of the JSON
  kinds, \<^verbatim>\<open>undefined\<close> (what reading an absent property gives), or a \<^verbatim>\<open>Date\<close> with a
  valid time value in milliseconds since the epoch. Numbers are kept as integers: the
  handlers never compute with them.
\<close>

datatype jsval =
    JUndefined
  | JNull
  | JBool bool
  | JNum int
  | JStr string
  | JDate int
  | JArr "jsval list"
  | JObj "(string \<times> jsval) list"

text \<open>
  Reading a property, as the destructuring of \<^verbatim>\<open>req.body\<close> in line 109 does. Of
  \<^verbatim>\<open>undefined\<close> and of \<^verbatim>\<open>null\<close> no property can be read: the runtime throws a TypeError,
  which is the result \<open>None\<close>. An object gives the value stored under the key, \<^verbatim>\<open>undefined\<close>
  when it has none; any other value (the JSON parser also lets arrays through) has none
  of the keys the handlers read.
\<close>

fun property :: "jsval \<Rightarrow> string \<Rightarrow> jsval option" where
  "property JUndefined k = None"
| "property JNull k = None"
| "property (JObj kvs) k = Some (case map_of kvs k of Some v \<Rightarrow> v | None \<Rightarrow> JUndefined)"
| "property _ k = Some JUndefined"

text \<open>The values line 109 can destructure: all but \<^verbatim>\<open>undefined\<close> and \<^verbatim>\<open>null\<close>.\<close>

definition destructurable :: "jsval \<Rightarrow> bool" where
  "destructurable v \<longleftrightarrow> v \<noteq> JUndefined \<and> v \<noteq> JNull"

text \<open>An error object of the runtime; the server reads its stack.\<close>

record js_error =
  err_message :: string
  err_stack :: string

text \<open>A \<^verbatim>\<open>Date\<close> object as the constructor returns it: it never throws, a value it cannot
  convert gives an Invalid Date.\<close>

datatype jsdate = ValidDate int | InvalidDate

text \<open>
  \<^verbatim>\<open>new Date(v)\<close>. The conversion of a defined value to a time value (\<^verbatim>\<open>Date.parse\<close> for a
  string, \<^verbatim>\<open>ToNumber\<close> otherwise) belongs to the runtime and is the parameter \<open>tv\<close>, with
  \<open>None\<close> for \<^verbatim>\<open>NaN\<close>; \<^verbatim>\<open>new Date(undefined)\<close> is an Invalid Date.
\<close>

definition new_Date :: "(jsval \<Rightarrow> int option) \<Rightarrow> jsval \<Rightarrow> jsdate" where
  "new_Date tv v =
     (if v = JUndefined then InvalidDate
      else case tv v of None \<Rightarrow> InvalidDate | Some t \<Rightarrow> ValidDate t)"

section \<open>The inquiry record and the persistence gateway\<close>

text \<open>The record of the \<^verbatim>\<open>Inquiry\<close> schema, as the ORM client returns it. The fields carry
  the prefix \<open>inq_\<close> because \<open>id\<close> is a constant of HOL.\<close>

record inquiry =
  inq_id :: string
  inq_name :: string
  inq_email :: string
  inq_message :: string
  inq_eventDate :: int
  inq_userId :: "string option"
  inq_createdAt :: int
  inq_updatedAt :: int

text \<open>What \<^verbatim>\<open>res.json(inquiry)\<close> serialises: every field of the record, dates as \<^verbatim>\<open>Date\<close>
  objects, an absent \<^verbatim>\<open>userId\<close> as \<^verbatim>\<open>null\<close>.\<close>

definition inquiry_json :: "inquiry \<Rightarrow> jsval" where
  "inquiry_json r = JObj
     [(''id'', JStr (inq_id r)),
      (''name'', JStr (inq_name r)),
      (''email'', JStr (inq_email r)),
      (''message'', JStr (inq_message r)),
      (''eventDate'', JDate (inq_eventDate r)),
      (''userId'', (case inq_userId r of None \<Rightarrow> JNull | Some u \<Rightarrow> JStr u)),
      (''createdAt'', JDate (inq_createdAt r)),
      (''updatedAt'', JDate (inq_updatedAt r))]"

text \<open>The \<^verbatim>\<open>data\<close> object of \<^verbatim>\<open>prisma.inquiry.create\<close> (server.ts, lines 115-122). The
  TypeScript types of the body are not checked at run time, so four of the fields are
  whatever values the body holds.\<close>

record create_data =
  data_id :: string
  data_name :: jsval
  data_email :: jsval
  data_message :: jsval
  data_eventDate :: jsdate
  data_userId :: jsval

text \<open>What a call of the ORM client throws.\<close>

datatype prisma_error =
    ValidationError
  | UniqueConstraintViolation
  | RecordNotFound
  | ConnectionError

datatype sort_order = Asc | Desc

text \<open>
  The collaborators the handlers call and the repository does not define: the \<^verbatim>\<open>Date\<close>
  conversion of the runtime, the TypeError it throws when the given value is destructured
  although it is \<^verbatim>\<open>undefined\<close> or \<^verbatim>\<open>null\<close>, and the three operations of \<^verbatim>\<open>prisma.inquiry\<close>,
  over a datastore state \<open>'db\<close>. A call returns the error it throws (\<open>Inl\<close>) or its result, and
  the datastore state after it. \<open>inquiry_findMany\<close> takes the direction of
  the \<^verbatim>\<open>orderBy\<close> clause on \<^verbatim>\<open>createdAt\<close>, \<open>inquiry_delete\<close> the id of the \<^verbatim>\<open>where\<close> clause.
\<close>

record 'db deps =
  Date_value :: "jsval \<Rightarrow> int option"
  TypeError :: "jsval \<Rightarrow> js_error"
  inquiry_create :: "create_data \<Rightarrow> 'db \<Rightarrow> (prisma_error + inquiry) \<times> 'db"
  inquiry_findMany :: "sort_order \<Rightarrow> 'db \<Rightarrow> (prisma_error + inquiry list) \<times> 'db"
  inquiry_delete :: "string \<Rightarrow> 'db \<Rightarrow> (prisma_error + inquiry) \<times> 'db"

section \<open>Requests, responses and the server log\<close>

text \<open>Of a request the handlers read \<^verbatim>\<open>req.params.id\<close> and \<^verbatim>\<open>req.body\<close>.\<close>

record request =
  req_params_id :: string
  req_body :: jsval

record response =
  res_status :: nat
  res_body :: jsval

text \<open>One call of \<^verbatim>\<open>console.error\<close> is the list of its arguments.\<close>

datatype logged = Text string | Thrown prisma_error

text \<open>A handler's effect: the response it sends, the datastore after it, and the lines it
  wrote to the server log.\<close>

record 'db outcome =
  out_res :: response
  out_db :: 'db
  out_log :: "logged list list"

text \<open>\<^verbatim>\<open>res.json(v)\<close> answers with status 200, \<^verbatim>\<open>res.status(c).json(v)\<close> with status \<open>c\<close>.\<close>

definition res_json :: "jsval \<Rightarrow> response" where
  "res_json v = \<lparr>res_status = 200, res_body = v\<rparr>"

definition res_status_json :: "nat \<Rightarrow> jsval \<Rightarrow> response" where
  "res_status_json c v = \<lparr>res_status = c, res_body = v\<rparr>"

section \<open>The handlers of server.ts\<close>

text \<open>
  Lines 109-122: the destructuring of the body and the record the create handler builds
  for the gateway. Line 109 throws when the body is \<^verbatim>\<open>undefined\<close> or \<^verbatim>\<open>null\<close>, and then there
  is no record (\<open>None\<close>). Otherwise the id is the value \<^verbatim>\<open>uuidv4()\<close> returned and the other
  fields are what the body holds under their five keys.
\<close>

definition inquiry_data ::
  "(jsval \<Rightarrow> int option) \<Rightarrow> string \<Rightarrow> request \<Rightarrow> create_data option" where
  "inquiry_data tv uuidv4 req =
     (case property (req_body req) ''name'' of None \<Rightarrow> None | Some name \<Rightarrow>
     (case property (req_body req) ''email'' of None \<Rightarrow> None | Some email \<Rightarrow>
     (case property (req_body req) ''message'' of None \<Rightarrow> None | Some message \<Rightarrow>
     (case property (req_body req) ''eventDate'' of None \<Rightarrow> None | Some eventDate \<Rightarrow>
     (case property (req_body req) ''userId'' of None \<Rightarrow> None | Some userId \<Rightarrow>
        Some \<lparr>data_id = uuidv4,
              data_name = name,
              data_email = email,
              data_message = message,
              data_eventDate = new_Date tv eventDate,
              data_userId = userId\<rparr>)))))"

text \<open>
  \<^verbatim>\<open>app.post("/api/inquiries", ...)\<close>, lines 108-129. The argument \<open>uuidv4\<close> is the value
  the call \<^verbatim>\<open>uuidv4()\<close> of this request returns. The destructuring of line 109 stands before
  the \<^verbatim>\<open>try\<close> of line 113, so its TypeError is not caught by the handler: the handler fails
  with it (\<open>Inl\<close>) and neither calls the gateway nor sends a response. Everything the
  gateway throws is caught in line 125.
\<close>

definition post_inquiries ::
  "'db deps \<Rightarrow> string \<Rightarrow> request \<Rightarrow> 'db \<Rightarrow> js_error + 'db outcome" where
  "post_inquiries P uuidv4 req s =
     (case inquiry_data (Date_value P) uuidv4 req of
        None \<Rightarrow> Inl (TypeError P (req_body req))
      | Some data \<Rightarrow>
          Inr (case inquiry_create P data s of
                 (Inr inquiry, s') \<Rightarrow>
                   \<lparr>out_res = res_json (inquiry_json inquiry), out_db = s', out_log = []\<rparr>
               | (Inl error, s') \<Rightarrow>
                   \<lparr>out_res = res_status_json 500
                                (JObj [(''error'', JStr ''Failed to create inquiry'')]),
                    out_db = s',
                    out_log = [[Text ''Create inquiry error:'', Thrown error]]\<rparr>))"

text \<open>\<^verbatim>\<open>app.get("/api/inquiries", ...)\<close>, lines 143-155; the request is not read.\<close>

definition get_inquiries :: "'db deps \<Rightarrow> request \<Rightarrow> 'db \<Rightarrow> 'db outcome" where
  "get_inquiries P req s =
     (case inquiry_findMany P Desc s of
        (Inr inquiries, s') \<Rightarrow>
          \<lparr>out_res = res_json (JArr (map inquiry_json inquiries)), out_db = s', out_log = []\<rparr>
      | (Inl error, s') \<Rightarrow>
          \<lparr>out_res = res_status_json 500 (JObj [(''error'', JStr ''Failed to fetch inquiries'')]),
           out_db = s',
           out_log = [[Text ''Get inquiries error:'', Thrown error]]\<rparr>)"

text \<open>\<^verbatim>\<open>app.delete("/api/inquiries/:id", ...)\<close>, lines 176-187; the deleted record the
  gateway returns is dropped. Line 177 destructures \<^verbatim>\<open>req.params\<close>, which the router always
  sets to an object, so nothing is thrown outside the \<^verbatim>\<open>try\<close>.\<close>

definition delete_inquiry :: "'db deps \<Rightarrow> request \<Rightarrow> 'db \<Rightarrow> 'db outcome" where
  "delete_inquiry P req s =
     (case inquiry_delete P (req_params_id req) s of
        (Inr deleted, s') \<Rightarrow>
          \<lparr>out_res = res_json (JObj [(''message'', JStr ''Inquiry deleted successfully'')]),
           out_db = s',
           out_log = []\<rparr>
      | (Inl error, s') \<Rightarrow>
          \<lparr>out_res = res_status_json 500 (JObj [(''error'', JStr ''Failed to delete inquiry'')]),
           out_db = s',
           out_log = [[Text ''Delete inquiry error:'', Thrown error]]\<rparr>)"

text \<open>
  The error handling middleware, lines 190-193. It is called with the error object of a
  failure that nothing before it caught; of that object it reads the stack.
\<close>

definition error_middleware :: "js_error \<Rightarrow> request \<Rightarrow> 'db \<Rightarrow> 'db outcome" where
  "error_middleware err req s =
     \<lparr>out_res = res_status_json 500 (JObj [(''error'', JStr ''Something broke!'')]),
      out_db = s,
      out_log = [[Text (err_stack err)]]\<rparr>"

section \<open>The application: body parser, routes, catch-all\<close>

text \<open>
  Modelled from the spec: the dispatch of the web framework, which is not code of the
  repository. Section 6 and section 7 of the specification: any failure that an
  operation's own error handling did not catch falls through to the catch-all responder
  registered last. In the application as server.ts assembles it (lines 13-14 and 108-193)
  two failures are not caught by a handler: the error of the JSON body parser registered
  in line 14, and the TypeError of line 109 in the create handler. \<open>in_payload\<close> is what the
  parser made of the request: its error, or the value it left in \<^verbatim>\<open>req.body\<close> (the parsed
  body, or \<^verbatim>\<open>undefined\<close> where the parser leaves the body unset when the request has none).

  \<open>routes\<close> is the chain before the catch-all, with the failure it did not catch as \<open>Inl\<close>;
  \<open>app\<close> hands that failure to the error handling middleware.
\<close>

datatype route = PostInquiries | GetInquiries | DeleteInquiry

record incoming =
  in_route :: route
  in_params_id :: string
  in_payload :: "js_error + jsval"

definition express_request :: "incoming \<Rightarrow> request" where
  "express_request rq =
     \<lparr>req_params_id = in_params_id rq,
      req_body = (case in_payload rq of Inl err \<Rightarrow> JUndefined | Inr b \<Rightarrow> b)\<rparr>"

definition routes :: "'db deps \<Rightarrow> string \<Rightarrow> incoming \<Rightarrow> 'db \<Rightarrow> js_error + 'db outcome" where
  "routes P uuidv4 rq s =
     (case in_payload rq of
        Inl err \<Rightarrow> Inl err
      | Inr b \<Rightarrow>
          (case in_route rq of
             PostInquiries \<Rightarrow> post_inquiries P uuidv4 (express_request rq) s
           | GetInquiries \<Rightarrow> Inr (get_inquiries P (express_request rq) s)
           | DeleteInquiry \<Rightarrow> Inr (delete_inquiry P (express_request rq) s)))"

definition app :: "'db deps \<Rightarrow> string \<Rightarrow> incoming \<Rightarrow> 'db \<Rightarrow> 'db outcome" where
  "app P uuidv4 rq s =
     (case routes P uuidv4 rq s of
        Inl err \<Rightarrow> error_middleware err (express_request rq) s
      | Inr out \<Rightarrow> out)"

section \<open>The persistence gateway and its datastore\<close>

text \<open>
  What a request finds around the process: the clock the datastore stamps a new row with,
  whether the datastore can be reached, and of the runtime the date conversion and the
  TypeError it throws.
\<close>

record world =
  env_now :: int
  env_reachable :: bool
  env_Date_value :: "jsval \<Rightarrow> int option"
  env_TypeError :: "jsval \<Rightarrow> js_error"

text \<open>
  Modelled from the spec: the schema of the \<^verbatim>\<open>Inquiry\<close> table, which the repository keeps
  outside server.ts. Section 3 of the specification (and the \<^verbatim>\<open>required\<close> list of the
  schema comment in server.ts, lines 56-60): \<^verbatim>\<open>name\<close>, \<^verbatim>\<open>email\<close> and \<^verbatim>\<open>message\<close> are required
  strings, \<^verbatim>\<open>eventDate\<close> is a required point in time, \<^verbatim>\<open>userId\<close> is an optional string, and
  \<^verbatim>\<open>createdAt\<close> and \<^verbatim>\<open>updatedAt\<close> are set by the persistence layer. A value of the wrong
  kind, an absent required value or an invalid date is rejected.
\<close>

fun required_string :: "jsval \<Rightarrow> string option" where
  "required_string (JStr s) = Some s"
| "required_string _ = None"

fun optional_string :: "jsval \<Rightarrow> string option option" where
  "optional_string JUndefined = Some None"
| "optional_string JNull = Some None"
| "optional_string (JStr s) = Some (Some s)"
| "optional_string _ = None"

definition validate_create :: "int \<Rightarrow> create_data \<Rightarrow> inquiry option" where
  "validate_create now d =
     (case required_string (data_name d) of None \<Rightarrow> None | Some n \<Rightarrow>
     (case required_string (data_email d) of None \<Rightarrow> None | Some e \<Rightarrow>
     (case required_string (data_message d) of None \<Rightarrow> None | Some m \<Rightarrow>
     (case data_eventDate d of InvalidDate \<Rightarrow> None | ValidDate t \<Rightarrow>
     (case optional_string (data_userId d) of None \<Rightarrow> None | Some u \<Rightarrow>
        Some \<lparr>inq_id = data_id d, inq_name = n, inq_email = e, inq_message = m,
              inq_eventDate = t, inq_userId = u,
              inq_createdAt = now, inq_updatedAt = now\<rparr>)))))"

text \<open>
  Modelled from the spec: the three operations of the ORM client on the table, which is
  the list of its rows in the order they were inserted. Section 4.1 of the specification:
  a create fails on malformed input, on a constraint violation (the id is unique, section
  3) and when the datastore cannot be reached, and otherwise inserts the row; a list
  returns all rows ordered by \<^verbatim>\<open>createdAt\<close>; a delete removes the row with the matching id,
  and fails when the datastore cannot be reached or (section 8, last scenario) no row has
  the id. A failed operation leaves the table as it was.
\<close>

definition prisma_inquiry_create ::
  "world \<Rightarrow> create_data \<Rightarrow> inquiry list \<Rightarrow> (prisma_error + inquiry) \<times> inquiry list" where
  "prisma_inquiry_create w d rows =
     (case validate_create (env_now w) d of
        None \<Rightarrow> (Inl ValidationError, rows)
      | Some r \<Rightarrow>
          if \<not> env_reachable w then (Inl ConnectionError, rows)
          else if data_id d \<in> set (map inq_id rows) then (Inl UniqueConstraintViolation, rows)
          else (Inr r, rows @ [r]))"

definition prisma_inquiry_findMany ::
  "world \<Rightarrow> sort_order \<Rightarrow> inquiry list \<Rightarrow> (prisma_error + inquiry list) \<times> inquiry list" where
  "prisma_inquiry_findMany w ord rows =
     (if \<not> env_reachable w then (Inl ConnectionError, rows)
      else (Inr (case ord of
                   Asc \<Rightarrow> sort_key inq_createdAt rows
                 | Desc \<Rightarrow> sort_key (\<lambda>r. - inq_createdAt r) rows), rows))"

definition prisma_inquiry_delete ::
  "world \<Rightarrow> string \<Rightarrow> inquiry list \<Rightarrow> (prisma_error + inquiry) \<times> inquiry list" where
  "prisma_inquiry_delete w i rows =
     (if \<not> env_reachable w then (Inl ConnectionError, rows)
      else case find (\<lambda>r. inq_id r = i) rows of
             None \<Rightarrow> (Inl RecordNotFound, rows)
           | Some r \<Rightarrow> (Inr r, filter (\<lambda>r. inq_id r \<noteq> i) rows))"

definition prisma :: "world \<Rightarrow> inquiry list deps" where
  "prisma w =
     \<lparr>Date_value = env_Date_value w,
      TypeError = env_TypeError w,
      inquiry_create = prisma_inquiry_create w,
      inquiry_findMany = prisma_inquiry_findMany w,
      inquiry_delete = prisma_inquiry_delete w\<rparr>"

section \<open>The identifier generator\<close>







section \<open>The service over a sequence of requests\<close>







section \<open>What the handlers rely on in the gateway\<close>

text \<open>
  Modelled from the spec: the contract of the ORM client, which the repository calls and
  does not define. The theorems about the handlers hold for every gateway that keeps the
  part of the contract they name; \<open>prisma\<close> above keeps all of it.

  Sections 3 and 4.1 of the specification: the record a successful create returns has the
  fields of the data it was given, the id as given, the three strings and the date
  unchanged, and the \<^verbatim>\<open>userId\<close> either the given string or absent.
\<close>

definition stored_as :: "create_data \<Rightarrow> inquiry \<Rightarrow> bool" where
  "stored_as d r \<longleftrightarrow>
     inq_id r = data_id d
     \<and> data_name d = JStr (inq_name r)
     \<and> data_email d = JStr (inq_email r)
     \<and> data_message d = JStr (inq_message r)
     \<and> data_eventDate d = ValidDate (inq_eventDate r)
     \<and> (case inq_userId r of
          None \<Rightarrow> data_userId d = JUndefined \<or> data_userId d = JNull
        | Some u \<Rightarrow> data_userId d = JStr u)"

definition create_stores :: "'db deps \<Rightarrow> bool" where
  "create_stores P \<longleftrightarrow>
     (\<forall>d s r s'. inquiry_create P d s = (Inr r, s') \<longrightarrow> stored_as d r)"



text \<open>
  Modelled from the spec: the last scenario of section 8. A delete with an id that no row
  of the table has fails, and the table stays as it was.
\<close>

definition delete_requires_row :: "inquiry list deps \<Rightarrow> bool" where
  "delete_requires_row P \<longleftrightarrow>
     (\<forall>i rows. i \<notin> inq_id ` set rows \<longrightarrow> (\<exists>e. inquiry_delete P i rows = (Inl e, rows)))"

section \<open>The fields a request supplies\<close>


section \<open>Sample requests and rows\<close>

text \<open>
  The first scenario of section 8 of the specification, used to run the theorems below on
  concrete input: a request body with the four required fields, a runtime that converts
  its date string, a datastore that can be reached, and rows that are already stored. The
  forged request carries the same five fields and, in addition, an \<^verbatim>\<open>id\<close> and the two
  system-managed timestamps. The requests without a body are what the handlers see when
  the parser left \<^verbatim>\<open>req.body\<close> unset.
\<close>

definition scenario_Date_value :: "jsval \<Rightarrow> int option" where
  "scenario_Date_value v =
     (if v = JStr ''2024-01-01T00:00:00Z'' then Some 1704067200000 else None)"

definition scenario_TypeError :: "jsval \<Rightarrow> js_error" where
  "scenario_TypeError v =
     \<lparr>err_message = ''Cannot destructure property name of req.body'',
      err_stack = ''TypeError: Cannot destructure property name of req.body at server.ts:109''\<rparr>"

definition scenario_world :: world where
  "scenario_world =
     \<lparr>env_now = 1717236000000, env_reachable = True, env_Date_value = scenario_Date_value,
      env_TypeError = scenario_TypeError\<rparr>"

definition scenario_body :: jsval where
  "scenario_body = JObj
     [(''name'', JStr ''A''),
      (''email'', JStr ''a@x.com''),
      (''message'', JStr ''hi''),
      (''eventDate'', JStr ''2024-01-01T00:00:00Z'')]"

definition scenario_request :: request where
  "scenario_request = \<lparr>req_params_id = [], req_body = scenario_body\<rparr>"

definition scenario_uuid :: string where
  "scenario_uuid = ''1b4e28ba-2fa1-41d2-883f-0016d3cca427''"

definition scenario_row :: inquiry where
  "scenario_row =
     \<lparr>inq_id = ''9c5b94b1-35ad-49bb-b118-8e8fc24abf80'', inq_name = ''B'',
      inq_email = ''b@y.org'', inq_message = ''hello'', inq_eventDate = 1700000000000,
      inq_userId = Some ''u-17'', inq_createdAt = 1717000000000,
      inq_updatedAt = 1717000000000\<rparr>"


definition newer_row :: inquiry where
  "newer_row =
     \<lparr>inq_id = ''0e6f3c5a-7d41-4c0b-9a3e-5f2d8b917c64'', inq_name = ''C'',
      inq_email = ''c@z.net'', inq_message = ''hey'', inq_eventDate = 1720000000000,
      inq_userId = None, inq_createdAt = 1717100000000, inq_updatedAt = 1717100000000\<rparr>"




definition no_body_incoming :: incoming where
  "no_body_incoming =
     \<lparr>in_route = PostInquiries, in_params_id = [], in_payload = Inr JUndefined\<rparr>"

definition delete_newer_request :: request where
  "delete_newer_request = \<lparr>req_params_id = inq_id newer_row, req_body = JObj []\<rparr>"

definition delete_unknown_request :: request where
  "delete_unknown_request = \<lparr>req_params_id = scenario_uuid, req_body = JObj []\<rparr>"

definition list_incoming :: incoming where
  "list_incoming = \<lparr>in_route = GetInquiries, in_params_id = [], in_payload = Inr (JObj [])\<rparr>"

definition malformed_incoming :: incoming where
  "malformed_incoming =
     \<lparr>in_route = PostInquiries, in_params_id = [],
      in_payload = Inl \<lparr>err_message = ''Unexpected end of JSON input'',
                        err_stack = ''SyntaxError: Unexpected end of JSON input at parse''\<rparr>\<rparr>"




section \<open>Unfolding the model\<close>

lemmas scenario_defs =
  scenario_Date_value_def scenario_world_def scenario_body_def scenario_request_def
  scenario_uuid_def scenario_row_def scenario_TypeError_def

lemmas model_defs =
  prisma_def prisma_inquiry_create_def prisma_inquiry_findMany_def prisma_inquiry_delete_def
  validate_create_def inquiry_data_def new_Date_def

lemmas handler_defs =
  post_inquiries_def get_inquiries_def delete_inquiry_def error_middleware_def app_def
  routes_def express_request_def res_json_def res_status_json_def inquiry_json_def

section \<open>What the handlers do with the gateway's answer\<close>

lemma property_None: "property v k = None \<longleftrightarrow> \<not> destructurable v"
  by (cases v) (simp_all add: destructurable_def)

lemma property_Some: "destructurable v \<Longrightarrow> \<exists>x. property v k = Some x"
  by (cases v) (simp_all add: destructurable_def)

lemma inquiry_data_None:
  "inquiry_data tv uuidv4 req = None \<longleftrightarrow> \<not> destructurable (req_body req)"
proof (cases "destructurable (req_body req)")
  case True
  then obtain n e m d u where
    "property (req_body req) ''name'' = Some n" "property (req_body req) ''email'' = Some e"
    "property (req_body req) ''message'' = Some m"
    "property (req_body req) ''eventDate'' = Some d"
    "property (req_body req) ''userId'' = Some u"
    using property_Some by meson
  with True show ?thesis by (simp add: inquiry_data_def)
next
  case False
  then have "property (req_body req) ''name'' = None" by (simp add: property_None)
  with False show ?thesis by (simp add: inquiry_data_def)
qed

lemma inquiry_data_SomeD:
  assumes "inquiry_data tv uuidv4 req = Some d"
  shows "data_id d = uuidv4"
    and "property (req_body req) ''name'' = Some (data_name d)"
    and "property (req_body req) ''email'' = Some (data_email d)"
    and "property (req_body req) ''message'' = Some (data_message d)"
    and "\<exists>v. property (req_body req) ''eventDate'' = Some v \<and> data_eventDate d = new_Date tv v"
    and "property (req_body req) ''userId'' = Some (data_userId d)"
    and "destructurable (req_body req)"
proof -
  show "destructurable (req_body req)"
    using assms inquiry_data_None [of tv uuidv4 req] by auto
qed (use assms in \<open>auto simp: inquiry_data_def split: option.splits\<close>)

lemma inquiry_data_SomeI:
  assumes "property (req_body req) ''name'' = Some n"
    and "property (req_body req) ''email'' = Some e"
    and "property (req_body req) ''message'' = Some m"
    and "property (req_body req) ''eventDate'' = Some v"
    and "property (req_body req) ''userId'' = Some u"
  shows "inquiry_data tv uuidv4 req =
           Some \<lparr>data_id = uuidv4, data_name = n, data_email = e, data_message = m,
                 data_eventDate = new_Date tv v, data_userId = u\<rparr>"
  using assms by (simp add: inquiry_data_def)

lemma post_inquiries_Inr:
  assumes "inquiry_data (Date_value P) uuidv4 req = Some d"
    and "inquiry_create P d s = (Inr inq, s')"
  shows "post_inquiries P uuidv4 req s =
           Inr \<lparr>out_res = \<lparr>res_status = 200, res_body = inquiry_json inq\<rparr>,
                out_db = s', out_log = []\<rparr>"
  using assms by (simp add: post_inquiries_def res_json_def)

lemma post_inquiries_Inl:
  assumes "inquiry_data (Date_value P) uuidv4 req = Some d"
    and "inquiry_create P d s = (Inl e, s')"
  shows "post_inquiries P uuidv4 req s =
           Inr \<lparr>out_res = \<lparr>res_status = 500,
                            res_body = JObj [(''error'', JStr ''Failed to create inquiry'')]\<rparr>,
                out_db = s', out_log = [[Text ''Create inquiry error:'', Thrown e]]\<rparr>"
  using assms by (simp add: post_inquiries_def res_status_json_def)

lemma post_inquiries_throws:
  assumes "\<not> destructurable (req_body req)"
  shows "post_inquiries P uuidv4 req s = Inl (TypeError P (req_body req))"
  using assms inquiry_data_None [of "Date_value P" uuidv4 req]
  by (simp add: post_inquiries_def)

lemma required_string_SomeD: "required_string v = Some n \<Longrightarrow> v = JStr n"
  by (cases v) simp_all

lemma optional_string_userId:
  assumes "optional_string v = Some u"
  shows "case u of None \<Rightarrow> v = JUndefined \<or> v = JNull | Some x \<Rightarrow> v = JStr x"
  using assms by (cases v) auto

lemma validate_create_SomeD:
  assumes "validate_create now d = Some r"
  shows "inq_id r = data_id d" and "data_name d = JStr (inq_name r)"
    and "data_email d = JStr (inq_email r)" and "data_message d = JStr (inq_message r)"
    and "data_eventDate d = ValidDate (inq_eventDate r)"
    and "optional_string (data_userId d) = Some (inq_userId r)"
    and "inq_createdAt r = now" and "inq_updatedAt r = now"
  using assms
  by (auto simp: validate_create_def split: option.splits jsdate.splits
           dest: required_string_SomeD)

lemma prisma_inquiry_create_InrD:
  assumes "fst (prisma_inquiry_create w d rows) = Inr r"
  shows "validate_create (env_now w) d = Some r" and "env_reachable w"
    and "data_id d \<notin> inq_id ` set rows"
    and "prisma_inquiry_create w d rows = (Inr r, rows @ [r])"
  using assms
  by (auto simp: prisma_inquiry_create_def split: option.splits if_splits)


lemma inquiry_json_sel:
  "property (inquiry_json r) ''id'' = Some (JStr (inq_id r))"
  "property (inquiry_json r) ''name'' = Some (JStr (inq_name r))"
  "property (inquiry_json r) ''email'' = Some (JStr (inq_email r))"
  "property (inquiry_json r) ''message'' = Some (JStr (inq_message r))"
  "property (inquiry_json r) ''eventDate'' = Some (JDate (inq_eventDate r))"
  "property (inquiry_json r) ''userId'' =
     Some (case inq_userId r of None \<Rightarrow> JNull | Some u \<Rightarrow> JStr u)"
  "property (inquiry_json r) ''createdAt'' = Some (JDate (inq_createdAt r))"
  "property (inquiry_json r) ''updatedAt'' = Some (JDate (inq_updatedAt r))"
  by (simp_all add: inquiry_json_def)

lemma prisma_sel:
  "Date_value (prisma w) = env_Date_value w"
  "TypeError (prisma w) = env_TypeError w"
  "inquiry_create (prisma w) = prisma_inquiry_create w"
  "inquiry_findMany (prisma w) = prisma_inquiry_findMany w"
  "inquiry_delete (prisma w) = prisma_inquiry_delete w"
  by (simp_all add: prisma_def)

lemma prisma_create_stores: "create_stores (prisma w)"
  unfolding create_stores_def
proof (intro allI impI)
  fix d s r s'
  assume "inquiry_create (prisma w) d s = (Inr r, s')"
  then have "fst (prisma_inquiry_create w d s) = Inr r"
    by (simp add: prisma_sel)
  then have v: "validate_create (env_now w) d = Some r"
    by (rule prisma_inquiry_create_InrD)
  show "stored_as d r"
    using validate_create_SomeD(1-5) [OF v]
      optional_string_userId [OF validate_create_SomeD(6) [OF v]]
    by (simp add: stored_as_def)
qed


lemma get_inquiries_prisma:
  assumes "env_reachable w"
  shows "get_inquiries (prisma w) req rows =
           \<lparr>out_res = \<lparr>res_status = 200,
                        res_body = JArr (map inquiry_json
                                      (sort_key (\<lambda>r. - inq_createdAt r) rows))\<rparr>,
            out_db = rows, out_log = []\<rparr>"
  using assms
  by (simp add: get_inquiries_def prisma_sel prisma_inquiry_findMany_def res_json_def)

lemma sorted_desc_sort_key:
  "sorted_wrt (\<lambda>a b. inq_createdAt b \<le> inq_createdAt a)
     (sort_key (\<lambda>r. - inq_createdAt r) rows)"
proof -
  have "sorted (map (\<lambda>r. - inq_createdAt r) (sort_key (\<lambda>r. - inq_createdAt r) rows))"
    by (rule sorted_sort_key)
  then show ?thesis by (simp add: sorted_map)
qed

lemma sorted_desc_hd:
  assumes "sorted_wrt (\<lambda>a b. inq_createdAt b \<le> inq_createdAt a) xs" and "r \<in> set xs"
  shows "inq_createdAt r \<le> inq_createdAt (hd xs)"
  using assms by (cases xs) auto

lemma find_id_None:
  "find (\<lambda>r. inq_id r = i) rows = None \<longleftrightarrow> i \<notin> inq_id ` set rows"
  by (auto simp: find_None_iff)

lemma prisma_delete_requires_row: "delete_requires_row (prisma w)"
  unfolding delete_requires_row_def
proof (intro allI impI)
  fix i and rows :: "inquiry list"
  assume "i \<notin> inq_id ` set rows"
  then have "find (\<lambda>r. inq_id r = i) rows = None"
    by (simp add: find_id_None)
  then show "\<exists>e. inquiry_delete (prisma w) i rows = (Inl e, rows)"
    by (simp add: prisma_sel prisma_inquiry_delete_def)
qed

lemma delete_inquiry_Inl:
  assumes "inquiry_delete P (req_params_id req) s = (Inl e, s')"
  shows "delete_inquiry P req s =
           \<lparr>out_res = \<lparr>res_status = 500,
                        res_body = JObj [(''error'', JStr ''Failed to delete inquiry'')]\<rparr>,
            out_db = s', out_log = [[Text ''Delete inquiry error:'', Thrown e]]\<rparr>"
  using assms by (simp add: delete_inquiry_def res_status_json_def)

lemma delete_inquiry_Inr:
  assumes "inquiry_delete P (req_params_id req) s = (Inr r, s')"
  shows "delete_inquiry P req s =
           \<lparr>out_res = \<lparr>res_status = 200,
                        res_body = JObj [(''message'', JStr ''Inquiry deleted successfully'')]\<rparr>,
            out_db = s', out_log = []\<rparr>"
  using assms by (simp add: delete_inquiry_def res_json_def)

lemma inquiry_json_inj: "inj inquiry_json"
proof (rule injI)
  fix a b :: inquiry
  assume "inquiry_json a = inquiry_json b"
  then show "a = b"
    by (cases a, cases b) (auto simp: inquiry_json_def split: option.splits)
qed

lemma count_list_sort_key: "count_list (sort_key f xs) x = count_list xs x"
proof -
  have "count (mset (sort_key f xs)) x = count (mset xs) x" by simp
  then show ?thesis by (simp only: count_mset)
qed

lemma count_list_listed:
  "count_list (map inquiry_json (sort_key f xs)) (inquiry_json r) = count_list xs r"
  by (simp add: count_list_map_conv [OF inquiry_json_inj] count_list_sort_key)

lemma delete_inquiry_missing:
  assumes "req_params_id req \<notin> inq_id ` set rows"
  shows "delete_inquiry (prisma w) req rows =
           \<lparr>out_res = \<lparr>res_status = 500,
                        res_body = JObj [(''error'', JStr ''Failed to delete inquiry'')]\<rparr>,
            out_db = rows,
            out_log = [[Text ''Delete inquiry error:'',
                        Thrown (if env_reachable w then RecordNotFound else ConnectionError)]]\<rparr>"
proof -
  have "find (\<lambda>r. inq_id r = req_params_id req) rows = None"
    using assms by (simp add: find_id_None)
  then show ?thesis
    by (simp add: delete_inquiry_def prisma_sel prisma_inquiry_delete_def res_status_json_def)
qed

lemma delete_inquiry_unreachable:
  assumes "\<not> env_reachable w"
  shows "delete_inquiry (prisma w) req rows =
           \<lparr>out_res = \<lparr>res_status = 500,
                        res_body = JObj [(''error'', JStr ''Failed to delete inquiry'')]\<rparr>,
            out_db = rows,
            out_log = [[Text ''Delete inquiry error:'', Thrown ConnectionError]]\<rparr>"
  using assms
  by (simp add: delete_inquiry_def prisma_sel prisma_inquiry_delete_def res_status_json_def)

lemma delete_inquiry_existing:
  assumes "req_params_id req \<in> inq_id ` set rows" and "env_reachable w"
  shows "delete_inquiry (prisma w) req rows =
           \<lparr>out_res = \<lparr>res_status = 200,
                        res_body = JObj [(''message'', JStr ''Inquiry deleted successfully'')]\<rparr>,
            out_db = filter (\<lambda>r. inq_id r \<noteq> req_params_id req) rows,
            out_log = []\<rparr>"
proof -
  obtain r where "find (\<lambda>r. inq_id r = req_params_id req) rows = Some r"
    using assms(1) find_id_None [of "req_params_id req" rows] by (metis not_Some_eq)
  then show ?thesis
    using assms(2)
    by (simp add: delete_inquiry_def prisma_sel prisma_inquiry_delete_def res_json_def)
qed

lemma delete_inquiry_db:
  "out_db (delete_inquiry (prisma w) req rows) = rows
   \<or> out_db (delete_inquiry (prisma w) req rows) =
       filter (\<lambda>r. inq_id r \<noteq> req_params_id req) rows"
proof (cases "req_params_id req \<in> inq_id ` set rows \<and> env_reachable w")
  case True
  then show ?thesis by (simp add: delete_inquiry_existing)
next
  case False
  then show ?thesis
    by (auto simp: delete_inquiry_unreachable delete_inquiry_missing)
qed

lemma valid_input_created:
  assumes "property (req_body req) ''name'' = Some (JStr n)"
    and "property (req_body req) ''email'' = Some (JStr e)"
    and "property (req_body req) ''message'' = Some (JStr m)"
    and "property (req_body req) ''eventDate'' = Some (JStr d)"
    and "env_Date_value w (JStr d) = Some t"
    and "property (req_body req) ''userId'' =
           Some (case u of None \<Rightarrow> JUndefined | Some x \<Rightarrow> JStr x)"
    and "env_reachable w"
    and "uuidv4 \<notin> inq_id ` set rows"
    and "r = \<lparr>inq_id = uuidv4, inq_name = n, inq_email = e, inq_message = m,
               inq_eventDate = t, inq_userId = u,
               inq_createdAt = env_now w, inq_updatedAt = env_now w\<rparr>"
  shows "\<exists>data. inquiry_data (env_Date_value w) uuidv4 req = Some data
              \<and> prisma_inquiry_create w data rows = (Inr r, rows @ [r])"
  using assms
  by (cases u)
     (auto simp: prisma_inquiry_create_def validate_create_def inquiry_data_def new_Date_def)

section \<open>The generator and the run of the service\<close>
















section \<open>The create operation\<close>

text \<open>
  C1: a create request whose persistence call succeeds is answered with status 200 and the
  created record as JSON, the datastore being the one the gateway left and nothing
  logged. For a gateway that returns the record it stored, that JSON carries the id the
  service generated, the name, email and message of the body, the time value the \<^verbatim>\<open>Date\<close>
  constructor made of the body's eventDate, the body's userId (\<^verbatim>\<open>null\<close> when it is
  absent), and the createdAt and updatedAt dates of the record.
\<close>

theorem create_success_returns_record:
  assumes data: "inquiry_data (Date_value P) uuidv4 req = Some d"
    and ok: "inquiry_create P d s = (Inr inq, s')"
    and stores: "create_stores P"
  shows "post_inquiries P uuidv4 req s =
           Inr \<lparr>out_res = \<lparr>res_status = 200, res_body = inquiry_json inq\<rparr>,
                out_db = s', out_log = []\<rparr>
       \<and> property (inquiry_json inq) ''id'' = Some (JStr uuidv4)
       \<and> property (inquiry_json inq) ''name'' = property (req_body req) ''name''
       \<and> property (inquiry_json inq) ''email'' = property (req_body req) ''email''
       \<and> property (inquiry_json inq) ''message'' = property (req_body req) ''message''
       \<and> (\<exists>v t. property (req_body req) ''eventDate'' = Some v
                \<and> new_Date (Date_value P) v = ValidDate t
                \<and> property (inquiry_json inq) ''eventDate'' = Some (JDate t))
       \<and> property (inquiry_json inq) ''userId'' =
           (if property (req_body req) ''userId'' = Some JUndefined then Some JNull
            else property (req_body req) ''userId'')
       \<and> (\<exists>c u. property (inquiry_json inq) ''createdAt'' = Some (JDate c)
                \<and> property (inquiry_json inq) ''updatedAt'' = Some (JDate u))"
proof -
  note dd = inquiry_data_SomeD [OF data]
  have st: "stored_as d inq"
    using ok stores unfolding create_stores_def by blast
  have "property (inquiry_json inq) ''userId'' =
           (if property (req_body req) ''userId'' = Some JUndefined then Some JNull
            else property (req_body req) ''userId'')"
    using st dd(6) by (auto simp: stored_as_def inquiry_json_sel split: option.splits)
  moreover obtain v where "property (req_body req) ''eventDate'' = Some v"
    "data_eventDate d = new_Date (Date_value P) v"
    using dd(5) by blast
  ultimately show ?thesis
    using st dd(1-4)
    by (simp add: post_inquiries_Inr [OF data ok] stored_as_def inquiry_json_sel)
qed

theorem create_success_returns_record_witness:
  "inquiry_data (Date_value (prisma scenario_world)) scenario_uuid scenario_request =
     Some \<lparr>data_id = scenario_uuid, data_name = JStr ''A'', data_email = JStr ''a@x.com'',
           data_message = JStr ''hi'', data_eventDate = ValidDate 1704067200000,
           data_userId = JUndefined\<rparr>
   \<and> inquiry_create (prisma scenario_world)
       \<lparr>data_id = scenario_uuid, data_name = JStr ''A'', data_email = JStr ''a@x.com'',
        data_message = JStr ''hi'', data_eventDate = ValidDate 1704067200000,
        data_userId = JUndefined\<rparr>
       [scenario_row] =
     (Inr \<lparr>inq_id = scenario_uuid, inq_name = ''A'', inq_email = ''a@x.com'',
           inq_message = ''hi'', inq_eventDate = 1704067200000, inq_userId = None,
           inq_createdAt = 1717236000000, inq_updatedAt = 1717236000000\<rparr>,
      [scenario_row,
       \<lparr>inq_id = scenario_uuid, inq_name = ''A'', inq_email = ''a@x.com'',
           inq_message = ''hi'', inq_eventDate = 1704067200000, inq_userId = None,
           inq_createdAt = 1717236000000, inq_updatedAt = 1717236000000\<rparr>])
   \<and> post_inquiries (prisma scenario_world) scenario_uuid scenario_request [scenario_row] =
       Inr \<lparr>out_res = \<lparr>res_status = 200,
             res_body = JObj
               [(''id'', JStr scenario_uuid), (''name'', JStr ''A''),
                (''email'', JStr ''a@x.com''), (''message'', JStr ''hi''),
                (''eventDate'', JDate 1704067200000), (''userId'', JNull),
                (''createdAt'', JDate 1717236000000),
                (''updatedAt'', JDate 1717236000000)]\<rparr>,
            out_db = [scenario_row,
              \<lparr>inq_id = scenario_uuid, inq_name = ''A'', inq_email = ''a@x.com'',
               inq_message = ''hi'', inq_eventDate = 1704067200000, inq_userId = None,
               inq_createdAt = 1717236000000, inq_updatedAt = 1717236000000\<rparr>],
            out_log = []\<rparr>"
proof -
  have d: "inquiry_data (Date_value (prisma scenario_world)) scenario_uuid scenario_request =
     Some \<lparr>data_id = scenario_uuid, data_name = JStr ''A'', data_email = JStr ''a@x.com'',
           data_message = JStr ''hi'', data_eventDate = ValidDate 1704067200000,
           data_userId = JUndefined\<rparr>"
    by (simp add: model_defs scenario_defs)
  have h: "inquiry_create (prisma scenario_world)
       \<lparr>data_id = scenario_uuid, data_name = JStr ''A'', data_email = JStr ''a@x.com'',
        data_message = JStr ''hi'', data_eventDate = ValidDate 1704067200000,
        data_userId = JUndefined\<rparr>
       [scenario_row] =
     (Inr \<lparr>inq_id = scenario_uuid, inq_name = ''A'', inq_email = ''a@x.com'',
           inq_message = ''hi'', inq_eventDate = 1704067200000, inq_userId = None,
           inq_createdAt = 1717236000000, inq_updatedAt = 1717236000000\<rparr>,
      [scenario_row,
       \<lparr>inq_id = scenario_uuid, inq_name = ''A'', inq_email = ''a@x.com'',
           inq_message = ''hi'', inq_eventDate = 1704067200000, inq_userId = None,
           inq_createdAt = 1717236000000, inq_updatedAt = 1717236000000\<rparr>])"
    by (simp add: model_defs scenario_defs)
  show ?thesis
    using d h create_success_returns_record [OF d h prisma_create_stores]
    by (simp add: inquiry_json_def)
qed

text \<open>
  C4: whenever the persistence call of a create request fails, whatever the gateway and
  whatever the error, the handler catches it and answers with status 500 and the body
  \<^verbatim>\<open>error: "Failed to create inquiry"\<close>. The response is this constant, so no detail of
  the error is part of it; the error itself goes to the server log, after the label
  \<^verbatim>\<open>Create inquiry error:\<close>.
\<close>

theorem create_failure_generic_500:
  assumes "inquiry_data (Date_value P) uuidv4 req = Some d"
    and "fst (inquiry_create P d s) = Inl e"
  shows "\<exists>out. post_inquiries P uuidv4 req s = Inr out
            \<and> out_res out =
                \<lparr>res_status = 500,
                 res_body = JObj [(''error'', JStr ''Failed to create inquiry'')]\<rparr>
            \<and> out_log out = [[Text ''Create inquiry error:'', Thrown e]]"
proof -
  obtain s' where "inquiry_create P d s = (Inl e, s')"
    using assms(2) by (cases "inquiry_create P d s") simp
  then show ?thesis
    by (simp add: post_inquiries_Inl [OF assms(1)])
qed

theorem create_failure_generic_500_witness:
  "inquiry_data (Date_value (prisma scenario_world)) scenario_uuid scenario_request =
     Some \<lparr>data_id = scenario_uuid, data_name = JStr ''A'', data_email = JStr ''a@x.com'',
           data_message = JStr ''hi'', data_eventDate = ValidDate 1704067200000,
           data_userId = JUndefined\<rparr>
   \<and> fst (inquiry_create (prisma scenario_world)
       \<lparr>data_id = scenario_uuid, data_name = JStr ''A'', data_email = JStr ''a@x.com'',
        data_message = JStr ''hi'', data_eventDate = ValidDate 1704067200000,
        data_userId = JUndefined\<rparr>
       [scenario_row\<lparr>inq_id := scenario_uuid\<rparr>]) = Inl UniqueConstraintViolation
   \<and> post_inquiries (prisma scenario_world) scenario_uuid scenario_request
       [scenario_row\<lparr>inq_id := scenario_uuid\<rparr>] =
       Inr \<lparr>out_res = \<lparr>res_status = 500,
                        res_body = JObj [(''error'', JStr ''Failed to create inquiry'')]\<rparr>,
            out_db = [scenario_row\<lparr>inq_id := scenario_uuid\<rparr>],
            out_log = [[Text ''Create inquiry error:'', Thrown UniqueConstraintViolation]]\<rparr>"
proof -
  have d: "inquiry_data (Date_value (prisma scenario_world)) scenario_uuid scenario_request =
     Some \<lparr>data_id = scenario_uuid, data_name = JStr ''A'', data_email = JStr ''a@x.com'',
           data_message = JStr ''hi'', data_eventDate = ValidDate 1704067200000,
           data_userId = JUndefined\<rparr>"
    by (simp add: model_defs scenario_defs)
  have h: "fst (inquiry_create (prisma scenario_world)
       \<lparr>data_id = scenario_uuid, data_name = JStr ''A'', data_email = JStr ''a@x.com'',
        data_message = JStr ''hi'', data_eventDate = ValidDate 1704067200000,
        data_userId = JUndefined\<rparr>
       [scenario_row\<lparr>inq_id := scenario_uuid\<rparr>]) = Inl UniqueConstraintViolation"
    by (simp add: model_defs scenario_defs)
  obtain out where o: "post_inquiries (prisma scenario_world) scenario_uuid scenario_request
       [scenario_row\<lparr>inq_id := scenario_uuid\<rparr>] = Inr out"
    and r: "out_res out =
                \<lparr>res_status = 500,
                 res_body = JObj [(''error'', JStr ''Failed to create inquiry'')]\<rparr>"
    and l: "out_log out = [[Text ''Create inquiry error:'', Thrown UniqueConstraintViolation]]"
    using create_failure_generic_500 [OF d h] by blast
  have "out_db out = [scenario_row\<lparr>inq_id := scenario_uuid\<rparr>]"
    using o by (auto simp: model_defs handler_defs scenario_defs)
  with r l have "out =
       \<lparr>out_res = \<lparr>res_status = 500,
                    res_body = JObj [(''error'', JStr ''Failed to create inquiry'')]\<rparr>,
        out_db = [scenario_row\<lparr>inq_id := scenario_uuid\<rparr>],
        out_log = [[Text ''Create inquiry error:'', Thrown UniqueConstraintViolation]]\<rparr>"
    by (cases out) simp
  with d h o show ?thesis by simp
qed







section \<open>The identifier of a record\<close>



section \<open>The list operation\<close>

text \<open>
  C2: whatever rows the datastore holds, a list request whose persistence call goes
  through is answered with status 200 and a JSON array of all the rows, each once and none
  left out however many there are, ordered by createdAt descending, so that no row is
  newer than the first of the array. The datastore is left as it was, and the answer does
  not depend on the request: the operation takes no input.
\<close>

theorem list_returns_all_newest_first:
  assumes "env_reachable w"
  shows "\<exists>xs. get_inquiries (prisma w) req rows =
                \<lparr>out_res = \<lparr>res_status = 200, res_body = JArr (map inquiry_json xs)\<rparr>,
                 out_db = rows, out_log = []\<rparr>
            \<and> mset xs = mset rows
            \<and> length xs = length rows
            \<and> sorted_wrt (\<lambda>a b. inq_createdAt b \<le> inq_createdAt a) xs
            \<and> (\<forall>r \<in> set rows. inq_createdAt r \<le> inq_createdAt (hd xs))
            \<and> get_inquiries (prisma w) req' rows = get_inquiries (prisma w) req rows"
proof (intro exI conjI)
  let ?xs = "sort_key (\<lambda>r. - inq_createdAt r) rows"
  show "get_inquiries (prisma w) req rows =
          \<lparr>out_res = \<lparr>res_status = 200, res_body = JArr (map inquiry_json ?xs)\<rparr>,
           out_db = rows, out_log = []\<rparr>"
    by (rule get_inquiries_prisma [OF assms])
  show "mset ?xs = mset rows" by simp
  show "length ?xs = length rows" by simp
  show "sorted_wrt (\<lambda>a b. inq_createdAt b \<le> inq_createdAt a) ?xs"
    by (rule sorted_desc_sort_key)
  show "\<forall>r \<in> set rows. inq_createdAt r \<le> inq_createdAt (hd ?xs)"
    using sorted_desc_hd [OF sorted_desc_sort_key, of _ rows] by simp
  show "get_inquiries (prisma w) req' rows = get_inquiries (prisma w) req rows"
    by (simp add: get_inquiries_def)
qed

theorem list_returns_all_newest_first_witness:
  "env_reachable scenario_world
   \<and> get_inquiries (prisma scenario_world) scenario_request [scenario_row, newer_row] =
       \<lparr>out_res = \<lparr>res_status = 200,
                    res_body = JArr [inquiry_json newer_row, inquiry_json scenario_row]\<rparr>,
        out_db = [scenario_row, newer_row], out_log = []\<rparr>"
proof -
  have h: "env_reachable scenario_world" by (simp add: scenario_world_def)
  obtain xs where
    "get_inquiries (prisma scenario_world) scenario_request [scenario_row, newer_row] =
       \<lparr>out_res = \<lparr>res_status = 200, res_body = JArr (map inquiry_json xs)\<rparr>,
        out_db = [scenario_row, newer_row], out_log = []\<rparr>"
    using list_returns_all_newest_first [OF h, of scenario_request "[scenario_row, newer_row]"]
    by blast
  then show ?thesis
    using h
    by (simp add: get_inquiries_def prisma_sel prisma_inquiry_findMany_def res_json_def
          scenario_row_def newer_row_def)
qed

text \<open>
  C3: a create request with string name, email and message, a date string the runtime can
  convert, and a string userId or none, whose persistence call goes through, is answered
  with the record made of exactly these values; a list request after it returns an array
  in which that record occurs exactly once.
\<close>

theorem create_then_list_roundtrip:
  assumes "property (req_body req) ''name'' = Some (JStr n)"
    and "property (req_body req) ''email'' = Some (JStr e)"
    and "property (req_body req) ''message'' = Some (JStr m)"
    and "property (req_body req) ''eventDate'' = Some (JStr d)"
    and "env_Date_value w (JStr d) = Some t"
    and "property (req_body req) ''userId'' =
           Some (case u of None \<Rightarrow> JUndefined | Some x \<Rightarrow> JStr x)"
    and "env_reachable w"
    and "uuidv4 \<notin> inq_id ` set rows"
    and "env_reachable w'"
  shows "\<exists>out created listed.
           post_inquiries (prisma w) uuidv4 req rows = Inr out
         \<and> out_res out = \<lparr>res_status = 200, res_body = created\<rparr>
         \<and> created = JObj
             [(''id'', JStr uuidv4), (''name'', JStr n), (''email'', JStr e),
              (''message'', JStr m), (''eventDate'', JDate t),
              (''userId'', (case u of None \<Rightarrow> JNull | Some x \<Rightarrow> JStr x)),
              (''createdAt'', JDate (env_now w)), (''updatedAt'', JDate (env_now w))]
         \<and> out_res (get_inquiries (prisma w') req' (out_db out)) =
             \<lparr>res_status = 200, res_body = JArr listed\<rparr>
         \<and> count_list listed created = 1"
proof -
  define r where "r = \<lparr>inq_id = uuidv4, inq_name = n, inq_email = e, inq_message = m,
                     inq_eventDate = t, inq_userId = u,
                     inq_createdAt = env_now w, inq_updatedAt = env_now w\<rparr>"
  obtain data where data: "inquiry_data (env_Date_value w) uuidv4 req = Some data"
    and c: "prisma_inquiry_create w data rows = (Inr r, rows @ [r])"
    using valid_input_created [OF assms(1-8) r_def] by blast
  have post: "post_inquiries (prisma w) uuidv4 req rows =
           Inr \<lparr>out_res = \<lparr>res_status = 200, res_body = inquiry_json r\<rparr>,
                out_db = rows @ [r], out_log = []\<rparr>"
    by (rule post_inquiries_Inr [where d = data]) (simp_all add: prisma_sel data c)
  have "inq_id r = uuidv4"
    by (simp add: r_def)
  with assms(8) have "r \<notin> set rows"
    by force
  then have once: "count_list (rows @ [r]) r = 1"
    by (simp add: count_list_0_iff)
  have j: "inquiry_json r = JObj
             [(''id'', JStr uuidv4), (''name'', JStr n), (''email'', JStr e),
              (''message'', JStr m), (''eventDate'', JDate t),
              (''userId'', (case u of None \<Rightarrow> JNull | Some x \<Rightarrow> JStr x)),
              (''createdAt'', JDate (env_now w)), (''updatedAt'', JDate (env_now w))]"
    by (simp add: inquiry_json_def r_def)
  let ?listed = "map inquiry_json (sort_key (\<lambda>r. - inq_createdAt r) (rows @ [r]))"
  have "out_res (get_inquiries (prisma w') req' (rows @ [r])) =
          \<lparr>res_status = 200, res_body = JArr ?listed\<rparr>"
    by (simp add: get_inquiries_prisma [OF assms(9)])
  moreover have "count_list ?listed (inquiry_json r) = 1"
    using once by (simp only: count_list_listed)
  ultimately show ?thesis
    using post j
    by (intro exI [of _ "\<lparr>out_res = \<lparr>res_status = 200, res_body = inquiry_json r\<rparr>,
                           out_db = rows @ [r], out_log = []\<rparr>"]
          exI [of _ "inquiry_json r"] exI [of _ ?listed]) simp
qed

theorem create_then_list_roundtrip_witness:
  "property (req_body scenario_request) ''name'' = Some (JStr ''A'')
   \<and> property (req_body scenario_request) ''email'' = Some (JStr ''a@x.com'')
   \<and> property (req_body scenario_request) ''message'' = Some (JStr ''hi'')
   \<and> property (req_body scenario_request) ''eventDate'' = Some (JStr ''2024-01-01T00:00:00Z'')
   \<and> env_Date_value scenario_world (JStr ''2024-01-01T00:00:00Z'') = Some 1704067200000
   \<and> property (req_body scenario_request) ''userId'' = Some JUndefined
   \<and> env_reachable scenario_world
   \<and> scenario_uuid \<notin> inq_id ` set [scenario_row, newer_row]
   \<and> post_inquiries (prisma scenario_world) scenario_uuid scenario_request
       [scenario_row, newer_row] =
       Inr \<lparr>out_res = \<lparr>res_status = 200,
             res_body = JObj
               [(''id'', JStr scenario_uuid), (''name'', JStr ''A''),
                (''email'', JStr ''a@x.com''), (''message'', JStr ''hi''),
                (''eventDate'', JDate 1704067200000), (''userId'', JNull),
                (''createdAt'', JDate 1717236000000),
                (''updatedAt'', JDate 1717236000000)]\<rparr>,
            out_db = [scenario_row, newer_row,
              \<lparr>inq_id = scenario_uuid, inq_name = ''A'', inq_email = ''a@x.com'',
               inq_message = ''hi'', inq_eventDate = 1704067200000, inq_userId = None,
               inq_createdAt = 1717236000000, inq_updatedAt = 1717236000000\<rparr>],
            out_log = []\<rparr>
   \<and> out_res (get_inquiries (prisma scenario_world) scenario_request
        [scenario_row, newer_row,
         \<lparr>inq_id = scenario_uuid, inq_name = ''A'', inq_email = ''a@x.com'',
          inq_message = ''hi'', inq_eventDate = 1704067200000, inq_userId = None,
          inq_createdAt = 1717236000000, inq_updatedAt = 1717236000000\<rparr>]) =
       \<lparr>res_status = 200,
        res_body = JArr
          [JObj [(''id'', JStr scenario_uuid), (''name'', JStr ''A''),
                 (''email'', JStr ''a@x.com''), (''message'', JStr ''hi''),
                 (''eventDate'', JDate 1704067200000), (''userId'', JNull),
                 (''createdAt'', JDate 1717236000000),
                 (''updatedAt'', JDate 1717236000000)],
           inquiry_json newer_row, inquiry_json scenario_row]\<rparr>"
proof -
  have h: "property (req_body scenario_request) ''name'' = Some (JStr ''A'')"
    "property (req_body scenario_request) ''email'' = Some (JStr ''a@x.com'')"
    "property (req_body scenario_request) ''message'' = Some (JStr ''hi'')"
    "property (req_body scenario_request) ''eventDate'' = Some (JStr ''2024-01-01T00:00:00Z'')"
    "env_Date_value scenario_world (JStr ''2024-01-01T00:00:00Z'') = Some 1704067200000"
    "property (req_body scenario_request) ''userId'' =
       Some (case None :: string option of None \<Rightarrow> JUndefined | Some x \<Rightarrow> JStr x)"
    "env_reachable scenario_world"
    "scenario_uuid \<notin> inq_id ` set [scenario_row, newer_row]"
    by (simp_all add: scenario_defs newer_row_def)
  obtain out created listed where
    p: "post_inquiries (prisma scenario_world) scenario_uuid scenario_request
          [scenario_row, newer_row] = Inr out"
    and l: "out_res (get_inquiries (prisma scenario_world) scenario_request (out_db out)) =
             \<lparr>res_status = 200, res_body = JArr listed\<rparr>"
    and n: "count_list listed created = 1"
    using create_then_list_roundtrip [OF h h(7), of scenario_request] by blast
  have o: "post_inquiries (prisma scenario_world) scenario_uuid scenario_request
       [scenario_row, newer_row] =
       Inr \<lparr>out_res = \<lparr>res_status = 200,
             res_body = JObj
               [(''id'', JStr scenario_uuid), (''name'', JStr ''A''),
                (''email'', JStr ''a@x.com''), (''message'', JStr ''hi''),
                (''eventDate'', JDate 1704067200000), (''userId'', JNull),
                (''createdAt'', JDate 1717236000000),
                (''updatedAt'', JDate 1717236000000)]\<rparr>,
            out_db = [scenario_row, newer_row,
              \<lparr>inq_id = scenario_uuid, inq_name = ''A'', inq_email = ''a@x.com'',
               inq_message = ''hi'', inq_eventDate = 1704067200000, inq_userId = None,
               inq_createdAt = 1717236000000, inq_updatedAt = 1717236000000\<rparr>],
            out_log = []\<rparr>"
    by (simp add: model_defs handler_defs scenario_defs newer_row_def)
  have g: "out_res (get_inquiries (prisma scenario_world) scenario_request
        [scenario_row, newer_row,
         \<lparr>inq_id = scenario_uuid, inq_name = ''A'', inq_email = ''a@x.com'',
          inq_message = ''hi'', inq_eventDate = 1704067200000, inq_userId = None,
          inq_createdAt = 1717236000000, inq_updatedAt = 1717236000000\<rparr>]) =
       \<lparr>res_status = 200,
        res_body = JArr
          [JObj [(''id'', JStr scenario_uuid), (''name'', JStr ''A''),
                 (''email'', JStr ''a@x.com''), (''message'', JStr ''hi''),
                 (''eventDate'', JDate 1704067200000), (''userId'', JNull),
                 (''createdAt'', JDate 1717236000000),
                 (''updatedAt'', JDate 1717236000000)],
           inquiry_json newer_row, inquiry_json scenario_row]\<rparr>"
    by (simp add: model_defs handler_defs scenario_defs newer_row_def)
  show ?thesis
    using h o g p l by simp
qed

section \<open>The delete operation\<close>

text \<open>
  C5: a delete request changes at most the rows whose id is the one in its path. In every
  case the rows with another id are the same before and after, in the same order; with an
  id that no row has the table is unchanged; and after the delete of an id that a row has
  went through, a list request returns exactly the other rows and none with that id.
\<close>

theorem delete_changes_only_matching_record:
  "filter (\<lambda>r. inq_id r \<noteq> req_params_id req) (out_db (delete_inquiry (prisma w) req rows)) =
     filter (\<lambda>r. inq_id r \<noteq> req_params_id req) rows
   \<and> (req_params_id req \<notin> inq_id ` set rows \<longrightarrow>
        out_db (delete_inquiry (prisma w) req rows) = rows)
   \<and> (req_params_id req \<in> inq_id ` set rows \<and> env_reachable w \<and> env_reachable w' \<longrightarrow>
        (\<exists>xs. out_res (get_inquiries (prisma w') req'
                         (out_db (delete_inquiry (prisma w) req rows))) =
                \<lparr>res_status = 200, res_body = JArr (map inquiry_json xs)\<rparr>
            \<and> req_params_id req \<notin> inq_id ` set xs
            \<and> mset xs = mset (filter (\<lambda>r. inq_id r \<noteq> req_params_id req) rows)))"
proof (intro conjI impI)
  show "filter (\<lambda>r. inq_id r \<noteq> req_params_id req)
          (out_db (delete_inquiry (prisma w) req rows)) =
        filter (\<lambda>r. inq_id r \<noteq> req_params_id req) rows"
    using delete_inquiry_db [of w req rows] by auto
next
  assume "req_params_id req \<notin> inq_id ` set rows"
  then show "out_db (delete_inquiry (prisma w) req rows) = rows"
    by (simp add: delete_inquiry_missing)
next
  assume a: "req_params_id req \<in> inq_id ` set rows \<and> env_reachable w \<and> env_reachable w'"
  let ?rest = "filter (\<lambda>r. inq_id r \<noteq> req_params_id req) rows"
  let ?xs = "sort_key (\<lambda>r. - inq_createdAt r) ?rest"
  have db: "out_db (delete_inquiry (prisma w) req rows) = ?rest"
    using a by (simp add: delete_inquiry_existing)
  have "out_res (get_inquiries (prisma w') req' ?rest) =
          \<lparr>res_status = 200, res_body = JArr (map inquiry_json ?xs)\<rparr>"
    using a by (simp add: get_inquiries_prisma)
  moreover have "req_params_id req \<notin> inq_id ` set ?xs"
    by auto
  moreover have "mset ?xs = mset ?rest"
    by simp
  ultimately show "\<exists>xs. out_res (get_inquiries (prisma w') req'
                         (out_db (delete_inquiry (prisma w) req rows))) =
                \<lparr>res_status = 200, res_body = JArr (map inquiry_json xs)\<rparr>
            \<and> req_params_id req \<notin> inq_id ` set xs
            \<and> mset xs = mset (filter (\<lambda>r. inq_id r \<noteq> req_params_id req) rows)"
    unfolding db by blast
qed

theorem delete_changes_only_matching_record_witness:
  "req_params_id delete_newer_request \<in> inq_id ` set [scenario_row, newer_row]
   \<and> env_reachable scenario_world
   \<and> out_db (delete_inquiry (prisma scenario_world) delete_newer_request
               [scenario_row, newer_row]) = [scenario_row]
   \<and> out_res (get_inquiries (prisma scenario_world) scenario_request
        (out_db (delete_inquiry (prisma scenario_world) delete_newer_request
                   [scenario_row, newer_row]))) =
       \<lparr>res_status = 200, res_body = JArr [inquiry_json scenario_row]\<rparr>
   \<and> req_params_id delete_unknown_request \<notin> inq_id ` set [scenario_row, newer_row]
   \<and> out_db (delete_inquiry (prisma scenario_world) delete_unknown_request
               [scenario_row, newer_row]) = [scenario_row, newer_row]"
proof -
  have h: "req_params_id delete_newer_request \<in> inq_id ` set [scenario_row, newer_row]"
    "env_reachable scenario_world"
    "req_params_id delete_unknown_request \<notin> inq_id ` set [scenario_row, newer_row]"
    by (simp_all add: delete_newer_request_def delete_unknown_request_def scenario_defs
          newer_row_def)
  have u: "out_db (delete_inquiry (prisma scenario_world) delete_unknown_request
               [scenario_row, newer_row]) = [scenario_row, newer_row]"
    using h(3) delete_changes_only_matching_record
      [of delete_unknown_request scenario_world "[scenario_row, newer_row]"]
    by blast
  have d: "out_db (delete_inquiry (prisma scenario_world) delete_newer_request
               [scenario_row, newer_row]) = [scenario_row]"
    by (simp add: model_defs handler_defs delete_newer_request_def scenario_defs newer_row_def)
  have "out_res (get_inquiries (prisma scenario_world) scenario_request [scenario_row]) =
       \<lparr>res_status = 200, res_body = JArr [inquiry_json scenario_row]\<rparr>"
    by (simp add: get_inquiries_prisma h(2))
  then show ?thesis
    using h u d by simp
qed

text \<open>
  C6: with a gateway whose delete fails for an id that no row has, a delete request with
  such an id is answered with status 500 and the body \<^verbatim>\<open>error: "Failed to delete inquiry"\<close>,
  the table stays as it was and the application answers the next request as it would
  have without the delete. Every failure of the gateway's delete gets this same response,
  so a missing row cannot be told from any other failure; a delete that succeeds is
  answered with status 200 and the message \<^verbatim>\<open>Inquiry deleted successfully\<close>.
\<close>

theorem delete_unknown_id_is_generic_500:
  assumes "delete_requires_row P"
  shows "(req_params_id req \<notin> inq_id ` set rows \<longrightarrow>
            (\<exists>e. delete_inquiry P req rows =
                   \<lparr>out_res = \<lparr>res_status = 500,
                                res_body = JObj [(''error'', JStr ''Failed to delete inquiry'')]\<rparr>,
                    out_db = rows,
                    out_log = [[Text ''Delete inquiry error:'', Thrown e]]\<rparr>)
          \<and> app P' uuidv4 rq (out_db (delete_inquiry P req rows)) = app P' uuidv4 rq rows)
       \<and> (\<forall>e. fst (inquiry_delete P (req_params_id req) rows) = Inl e \<longrightarrow>
            out_res (delete_inquiry P req rows) =
              \<lparr>res_status = 500,
               res_body = JObj [(''error'', JStr ''Failed to delete inquiry'')]\<rparr>)
       \<and> (\<forall>r. fst (inquiry_delete P (req_params_id req) rows) = Inr r \<longrightarrow>
            out_res (delete_inquiry P req rows) =
              \<lparr>res_status = 200,
               res_body = JObj [(''message'', JStr ''Inquiry deleted successfully'')]\<rparr>)"
proof (intro conjI impI allI)
  assume "req_params_id req \<notin> inq_id ` set rows"
  then obtain e where d: "inquiry_delete P (req_params_id req) rows = (Inl e, rows)"
    using assms unfolding delete_requires_row_def by blast
  show "\<exists>e. delete_inquiry P req rows =
                   \<lparr>out_res = \<lparr>res_status = 500,
                                res_body = JObj [(''error'', JStr ''Failed to delete inquiry'')]\<rparr>,
                    out_db = rows,
                    out_log = [[Text ''Delete inquiry error:'', Thrown e]]\<rparr>"
    using delete_inquiry_Inl [OF d] by blast
  show "app P' uuidv4 rq (out_db (delete_inquiry P req rows)) = app P' uuidv4 rq rows"
    by (simp add: delete_inquiry_Inl [OF d])
next
  fix e
  assume "fst (inquiry_delete P (req_params_id req) rows) = Inl e"
  then obtain s' where "inquiry_delete P (req_params_id req) rows = (Inl e, s')"
    by (cases "inquiry_delete P (req_params_id req) rows") simp
  then show "out_res (delete_inquiry P req rows) =
              \<lparr>res_status = 500,
               res_body = JObj [(''error'', JStr ''Failed to delete inquiry'')]\<rparr>"
    by (simp add: delete_inquiry_Inl)
next
  fix r
  assume "fst (inquiry_delete P (req_params_id req) rows) = Inr r"
  then obtain s' where "inquiry_delete P (req_params_id req) rows = (Inr r, s')"
    by (cases "inquiry_delete P (req_params_id req) rows") simp
  then show "out_res (delete_inquiry P req rows) =
              \<lparr>res_status = 200,
               res_body = JObj [(''message'', JStr ''Inquiry deleted successfully'')]\<rparr>"
    by (simp add: delete_inquiry_Inr)
qed

theorem delete_unknown_id_is_generic_500_witness:
  "req_params_id delete_unknown_request \<notin> inq_id ` set [scenario_row, newer_row]
   \<and> delete_inquiry (prisma scenario_world) delete_unknown_request [scenario_row, newer_row] =
       \<lparr>out_res = \<lparr>res_status = 500,
                    res_body = JObj [(''error'', JStr ''Failed to delete inquiry'')]\<rparr>,
        out_db = [scenario_row, newer_row],
        out_log = [[Text ''Delete inquiry error:'', Thrown RecordNotFound]]\<rparr>
   \<and> out_res (app (prisma scenario_world) scenario_uuid list_incoming
        (out_db (delete_inquiry (prisma scenario_world) delete_unknown_request
                   [scenario_row, newer_row]))) =
       \<lparr>res_status = 200,
        res_body = JArr [inquiry_json newer_row, inquiry_json scenario_row]\<rparr>
   \<and> fst (inquiry_delete (prisma scenario_world) (req_params_id delete_newer_request)
            [scenario_row, newer_row]) = Inr newer_row
   \<and> out_res (delete_inquiry (prisma scenario_world) delete_newer_request
                [scenario_row, newer_row]) =
       \<lparr>res_status = 200,
        res_body = JObj [(''message'', JStr ''Inquiry deleted successfully'')]\<rparr>"
proof -
  have h: "req_params_id delete_unknown_request \<notin> inq_id ` set [scenario_row, newer_row]"
    "fst (inquiry_delete (prisma scenario_world) (req_params_id delete_newer_request)
            [scenario_row, newer_row]) = Inr newer_row"
    by (simp_all add: model_defs delete_newer_request_def delete_unknown_request_def
          scenario_defs newer_row_def)
  note t = delete_unknown_id_is_generic_500 [OF prisma_delete_requires_row [of scenario_world],
      where rows = "[scenario_row, newer_row]"]
  obtain e where w: "delete_inquiry (prisma scenario_world) delete_unknown_request
                 [scenario_row, newer_row] =
       \<lparr>out_res = \<lparr>res_status = 500,
                    res_body = JObj [(''error'', JStr ''Failed to delete inquiry'')]\<rparr>,
        out_db = [scenario_row, newer_row],
        out_log = [[Text ''Delete inquiry error:'', Thrown e]]\<rparr>"
    using h(1) t [where req = delete_unknown_request] by blast
  have "out_log (delete_inquiry (prisma scenario_world) delete_unknown_request
                   [scenario_row, newer_row]) =
          [[Text ''Delete inquiry error:'', Thrown RecordNotFound]]"
    by (simp add: model_defs handler_defs delete_unknown_request_def scenario_defs newer_row_def)
  then have e: "e = RecordNotFound"
    using w by simp
  have r3: "out_res (delete_inquiry (prisma scenario_world) delete_newer_request
                [scenario_row, newer_row]) =
       \<lparr>res_status = 200,
        res_body = JObj [(''message'', JStr ''Inquiry deleted successfully'')]\<rparr>"
    using h(2) t [where req = delete_newer_request] by blast
  have g: "out_res (app (prisma scenario_world) scenario_uuid list_incoming
                      [scenario_row, newer_row]) =
       \<lparr>res_status = 200,
        res_body = JArr [inquiry_json newer_row, inquiry_json scenario_row]\<rparr>"
    by (simp add: app_def routes_def list_incoming_def get_inquiries_prisma
          scenario_world_def scenario_row_def newer_row_def)
  show ?thesis
    using h w e g r3 by simp
qed

section \<open>The catch-all\<close>

text \<open>
  C9: in the application two failures are not caught by an operation's own error handling,
  the error of the body parser and the TypeError that line 109 of the create handler
  throws outside its \<^verbatim>\<open>try\<close>, and there is no other. Each of them reaches the error
  handling middleware, and the middleware answers every error it is called with in the
  same way: status 500, the body \<^verbatim>\<open>error: "Something broke!"\<close>, the datastore untouched,
  and the stack of the error written to the server log and to nothing else. A request
  without such a failure is answered by its handler.
\<close>

theorem uncaught_failure_reaches_catch_all:
  "(routes P uuidv4 rq s = Inl err \<longleftrightarrow>
      in_payload rq = Inl err
      \<or> (\<exists>b. in_payload rq = Inr b \<and> in_route rq = PostInquiries
             \<and> \<not> destructurable b \<and> err = TypeError P b))
   \<and> (routes P uuidv4 rq s = Inl err \<longrightarrow>
        app P uuidv4 rq s =
          \<lparr>out_res = \<lparr>res_status = 500,
                       res_body = JObj [(''error'', JStr ''Something broke!'')]\<rparr>,
           out_db = s,
           out_log = [[Text (err_stack err)]]\<rparr>)
   \<and> (routes P uuidv4 rq s = Inr out \<longrightarrow> app P uuidv4 rq s = out)
   \<and> error_middleware err req s =
        \<lparr>out_res = \<lparr>res_status = 500,
                     res_body = JObj [(''error'', JStr ''Something broke!'')]\<rparr>,
         out_db = s,
         out_log = [[Text (err_stack err)]]\<rparr>"
proof (intro conjI impI)
  show "routes P uuidv4 rq s = Inl err \<longleftrightarrow>
      in_payload rq = Inl err
      \<or> (\<exists>b. in_payload rq = Inr b \<and> in_route rq = PostInquiries
             \<and> \<not> destructurable b \<and> err = TypeError P b)"
  proof (cases "in_payload rq")
    case (Inl e)
    then show ?thesis by (simp add: routes_def)
  next
    case (Inr b)
    then have req: "req_body (express_request rq) = b"
      by (simp add: express_request_def)
    show ?thesis
    proof (cases "in_route rq")
      case PostInquiries
      show ?thesis
      proof (cases "destructurable b")
        case True
        then obtain d where
          "inquiry_data (Date_value P) uuidv4 (express_request rq) = Some d"
          using inquiry_data_None [of "Date_value P" uuidv4 "express_request rq"] req by auto
        with Inr PostInquiries True show ?thesis
          by (simp add: routes_def post_inquiries_def)
      next
        case False
        with Inr PostInquiries req show ?thesis
          by (auto simp: routes_def post_inquiries_throws)
      qed
    qed (use Inr in \<open>simp_all add: routes_def\<close>)
  qed
qed (simp_all add: app_def error_middleware_def res_status_json_def)

theorem uncaught_failure_reaches_catch_all_witness:
  "routes (prisma scenario_world) scenario_uuid malformed_incoming [scenario_row] =
     Inl \<lparr>err_message = ''Unexpected end of JSON input'',
          err_stack = ''SyntaxError: Unexpected end of JSON input at parse''\<rparr>
   \<and> app (prisma scenario_world) scenario_uuid malformed_incoming [scenario_row] =
       \<lparr>out_res = \<lparr>res_status = 500,
                    res_body = JObj [(''error'', JStr ''Something broke!'')]\<rparr>,
        out_db = [scenario_row],
        out_log = [[Text ''SyntaxError: Unexpected end of JSON input at parse'']]\<rparr>
   \<and> routes (prisma scenario_world) scenario_uuid no_body_incoming [scenario_row] =
       Inl (scenario_TypeError JUndefined)
   \<and> app (prisma scenario_world) scenario_uuid no_body_incoming [scenario_row] =
       \<lparr>out_res = \<lparr>res_status = 500,
                    res_body = JObj [(''error'', JStr ''Something broke!'')]\<rparr>,
        out_db = [scenario_row],
        out_log = [[Text (err_stack (scenario_TypeError JUndefined))]]\<rparr>"
proof -
  have h: "routes (prisma scenario_world) scenario_uuid malformed_incoming [scenario_row] =
     Inl \<lparr>err_message = ''Unexpected end of JSON input'',
          err_stack = ''SyntaxError: Unexpected end of JSON input at parse''\<rparr>"
    "routes (prisma scenario_world) scenario_uuid no_body_incoming [scenario_row] =
       Inl (scenario_TypeError JUndefined)"
    by (simp_all add: routes_def malformed_incoming_def no_body_incoming_def
          express_request_def post_inquiries_def inquiry_data_def prisma_sel
          scenario_world_def)
  note t = uncaught_failure_reaches_catch_all
  have "app (prisma scenario_world) scenario_uuid malformed_incoming [scenario_row] =
       \<lparr>out_res = \<lparr>res_status = 500,
                    res_body = JObj [(''error'', JStr ''Something broke!'')]\<rparr>,
        out_db = [scenario_row],
        out_log = [[Text ''SyntaxError: Unexpected end of JSON input at parse'']]\<rparr>"
    using h(1) t [of "prisma scenario_world" scenario_uuid malformed_incoming "[scenario_row]"
        "\<lparr>err_message = ''Unexpected end of JSON input'',
          err_stack = ''SyntaxError: Unexpected end of JSON input at parse''\<rparr>"]
    by simp
  moreover have "app (prisma scenario_world) scenario_uuid no_body_incoming [scenario_row] =
       \<lparr>out_res = \<lparr>res_status = 500,
                    res_body = JObj [(''error'', JStr ''Something broke!'')]\<rparr>,
        out_db = [scenario_row],
        out_log = [[Text (err_stack (scenario_TypeError JUndefined))]]\<rparr>"
    using h(2) t [of "prisma scenario_world" scenario_uuid no_body_incoming "[scenario_row]"
        "scenario_TypeError JUndefined"]
    by simp
  ultimately show ?thesis
    using h by simp
qed

end
